theory Spec2Isabelle
  imports Complex_Main "HOL-Library.Word"
begin

unbundle bit_operations_syntax

section \<open>The map as the node reads it\<close>

text \<open>
  The stereo node (\<^verbatim>\<open>ptcloud_vslam_node.cpp\<close>) reads three things of the bundle
  adjustment system \<^verbatim>\<open>sba::SysSBA\<close>: the number of camera nodes, the list of tracks, and
  for every track its point and its projections.

  A projection \<^verbatim>\<open>sba::Proj\<close> is read through its two flags only. The projections of a
  track are a \<^verbatim>\<open>std::map\<close> from frame index (a C++ \<^verbatim>\<open>int\<close>) to projection; the model is
  the sequence of its entries in iteration order, so that \<^verbatim>\<open>prjs.size()\<close> is the length
  of the list. The frame index is only compared, never computed with, so it is an
  unbounded \<open>int\<close>.

  The components of a track's point are C++ \<^verbatim>\<open>double\<close> numbers. The node negates them,
  which is exact in IEEE arithmetic, and does no other arithmetic with them; the model
  takes them as reals. The coordinates of an exported point are \<^verbatim>\<open>float\<close> numbers:
  they are of a type \<open>'f\<close> of their own, and the conversion that the assignment of a
  \<^verbatim>\<open>double\<close> to a \<^verbatim>\<open>float\<close> field performs (rounding, and overflow to an infinity) is a
  parameter, \<open>narrow\<close>, of everything that exports a point.
\<close>

record Proj =
  isValid :: bool
  useCovar :: bool

type_synonym ProjMap = "(int \<times> Proj) list"

record Vector4d =
  c0 :: real
  c1 :: real
  c2 :: real
  c3 :: real

record Track =
  point :: Vector4d
  projections :: ProjMap

record 'n SysSBA =
  nodes :: "'n list"
  tracks :: "Track list"

text \<open>
  A point of the exported cloud, \<^verbatim>\<open>pcl::PointXYZRGB\<close>: three coordinates and the colour
  field, whose four bytes receive the packed colour by \<^verbatim>\<open>memcpy\<close>; the model keeps the
  bit pattern.
\<close>

record 'f PointXYZRGB =
  x :: 'f
  y :: 'f
  z :: 'f
  rgb :: "32 word"

record 'f PointCloud2 =
  frame_id :: string
  points :: "'f PointXYZRGB list"

text \<open>A \<^verbatim>\<open>ros::Publisher\<close> is the list of the messages published on it so far.\<close>

type_synonym 'f Publisher = "'f PointCloud2 list"

section \<open>publishPointclouds\<close>

text \<open>
  The inner loop (lines 170 to 177) over the projections of one track, on the pair of
  local variables \<^verbatim>\<open>pointplane\<close> and \<^verbatim>\<open>lastframe\<close>.
\<close>

fun scan_projections :: "ProjMap \<Rightarrow> bool \<times> int \<Rightarrow> bool \<times> int" where
  "scan_projections [] (pointplane, lastframe) = (pointplane, lastframe)"
| "scan_projections ((frame, prj) # rest) (pointplane, lastframe) =
     (if \<not> isValid prj then scan_projections rest (pointplane, lastframe)
      else scan_projections rest
             (if useCovar prj then True else pointplane, max frame lastframe))"

text \<open>The chain of comparisons of lines 185 to 194, on \<^verbatim>\<open>unsigned char\<close> components.\<close>

definition track_color :: "bool \<Rightarrow> int \<Rightarrow> 8 word \<times> 8 word \<times> 8 word" where
  "track_color pointplane lastframe =
     (if \<not> pointplane then (255, 255, 255)
      else if lastframe = 1 then (255, 0, 0)
      else if lastframe = 2 then (0, 255, 0)
      else if lastframe = 3 then (0, 0, 255)
      else (150, 150, 150))"

text \<open>
  Line 196: the three bytes are promoted to \<^verbatim>\<open>int\<close>, shifted and combined; the result
  fits 24 bits.
\<close>

definition rgb_packed :: "8 word \<Rightarrow> 8 word \<Rightarrow> 8 word \<Rightarrow> 32 word" where
  "rgb_packed r g b = push_bit 16 (ucast r) OR push_bit 8 (ucast g) OR ucast b"

text \<open>
  The body of the outer loop for one track, lines 164 to 197, as an update of the cloud's
  point at the track's index. A track with fewer than two projections leaves the point
  as it is (\<^verbatim>\<open>continue\<close>).
\<close>

definition export_track ::
  "(real \<Rightarrow> 'f) \<Rightarrow> Track \<Rightarrow> 'f PointXYZRGB \<Rightarrow> 'f PointXYZRGB" where
  "export_track narrow t p =
     (let prjs = projections t in
      if length prjs < 2 then p
      else
        let (pointplane, lastframe) = scan_projections prjs (False, 0);
            (r, g, b) = track_color pointplane lastframe
        in p\<lparr>x := narrow (c2 (point t)),
             y := narrow (- c0 (point t)),
             z := narrow (- c1 (point t)),
             rgb := rgb_packed r g b\<rparr>)"

text \<open>
  The outer loop, lines 162 to 198. The function receives the map by a reference that
  is not \<^verbatim>\<open>const\<close>, so the model threads the map through the loop together with the
  cloud.
\<close>

function publish_loop ::
  "(real \<Rightarrow> 'f) \<Rightarrow> nat \<Rightarrow> 'n SysSBA \<times> 'f PointXYZRGB list
   \<Rightarrow> 'n SysSBA \<times> 'f PointXYZRGB list" where
  "publish_loop narrow i (sba, cloud) =
     (if i < length (tracks sba)
      then publish_loop narrow (Suc i)
             (sba, cloud[i := export_track narrow (tracks sba ! i) (cloud ! i)])
      else (sba, cloud))"
  by pat_completeness auto
termination
  by (relation "measure (\<lambda>(narrow, i, sba, cloud). length (tracks sba) - i)") auto

declare publish_loop.simps [simp del]

text \<open>
  The whole function. The declaration of \<^verbatim>\<open>pcl::PointXYZRGB\<close> is not part of the
  sources at hand, so the point that \<^verbatim>\<open>resize\<close> fills the cloud with is the parameter
  \<open>dflt\<close>, next to the conversion \<open>narrow\<close> of the coordinates. The conversion to the
  message keeps the points; the message is published with the frame identifier
  \<^verbatim>\<open>/pgraph\<close>.
\<close>

definition publishPointclouds ::
  "(real \<Rightarrow> 'f) \<Rightarrow> 'f PointXYZRGB \<Rightarrow> 'n SysSBA \<Rightarrow> 'f Publisher
   \<Rightarrow> 'n SysSBA \<times> 'f Publisher" where
  "publishPointclouds narrow dflt sba pub =
     (let cloud = replicate (length (tracks sba)) dflt;
          (sba', cloud') = publish_loop narrow 0 (sba, cloud);
          cloud_out = \<lparr>frame_id = ''/pgraph'', points = cloud'\<rparr>
      in (sba', pub @ [cloud_out]))"

text \<open>
  The change of axes that lines 179 to 181 apply to the first three components of a
  track's point, as a map on triples.
\<close>

definition axis_remap :: "real \<times> real \<times> real \<Rightarrow> real \<times> real \<times> real" where
  "axis_remap p = (case p of (px, py, pz) \<Rightarrow> (pz, - px, - py))"

definition position :: "'f PointXYZRGB \<Rightarrow> 'f \<times> 'f \<times> 'f" where
  "position p = (x p, y p, z p)"

definition internal_position :: "Track \<Rightarrow> real \<times> real \<times> real" where
  "internal_position t = (c0 (point t), c1 (point t), c2 (point t))"

section \<open>The collaborators of the node\<close>

text \<open>
  The node drives code that is not part of \<^verbatim>\<open>ptcloud_vslam_node.cpp\<close>: the image and
  point cloud conversions, the camera model, the detector and \<^verbatim>\<open>vslam::VslamSystem\<close>.
  Their payloads are type variables, and what they compute is a record of functions
  that every definition below takes as its first argument.
\<close>

record CamParams =
  fx :: real
  fy :: real
  cx :: real
  cy :: real
  tx :: real

text \<open>What the node reads of \<^verbatim>\<open>image_geometry::StereoCameraModel\<close>.\<close>

record StereoCameraModel =
  left_fx :: real
  left_fy :: real
  left_cx :: real
  left_cy :: real
  baseline :: real

text \<open>
  The object behind a \<^verbatim>\<open>cv::Ptr<cv::FeatureDetector>\<close>, by its dynamic type; the
  pointer itself may be null.
\<close>

datatype 'ad FeatureDetector = AnyDetector 'ad | OtherDetector

type_synonym 'ad DetectorPtr = "'ad FeatureDetector option"

definition dynamic_cast_AnyDetector :: "'ad DetectorPtr \<Rightarrow> 'ad option" where
  "dynamic_cast_AnyDetector ptr =
     (case ptr of
        None \<Rightarrow> None
      | Some (AnyDetector d) \<Rightarrow> Some d
      | Some OtherDetector \<Rightarrow> None)"

text \<open>
  \<^verbatim>\<open>VslamSystem\<close>: the map \<^verbatim>\<open>sba_\<close>, the detector of its frame processor, and the rest
  (visual odometry, pose estimator, place recogniser), which the node never reads.
\<close>

record ('n, 'ad, 'vo) VslamSystem =
  vs_sba :: "'n SysSBA"
  frame_processor_detector :: "'ad DetectorPtr"
  vs_vo :: 'vo

record 'dp StereoVslamNodeConfig =
  vo_ransac_iterations :: int
  vo_polish :: bool
  detector_fields :: 'dp

text \<open>
  The five messages that the synchronizer hands to the callback, and the subscriber
  counts that the callback asks its two publishers for.
\<close>

record ('img, 'info, 'pcm) AlignedTuple =
  l_image :: 'img
  l_cam_info :: 'info
  r_image :: 'img
  r_cam_info :: 'info
  ptcloud_msg :: 'pcm

record Subscribers =
  vo_tracks_subscribers :: nat
  pointcloud_subscribers :: nat

text \<open>
  \<open>imgMsgToCv\<close> returns the image or throws \<^verbatim>\<open>CvBridgeException\<close> (\<open>Inl\<close>, with the text of
  \<^verbatim>\<open>what()\<close>). \<open>fromROSMsg\<close> has no result value to report a failure with: \<open>None\<close> is
  an exception leaving \<^verbatim>\<open>pcl::fromROSMsg\<close>, which is not a \<^verbatim>\<open>CvBridgeException\<close>.
  \<open>default_point\<close> is the default-constructed \<^verbatim>\<open>pcl::PointXYZRGB\<close> and
  \<open>float_of_double\<close> the conversion of a \<^verbatim>\<open>double\<close> to a \<^verbatim>\<open>float\<close>.
\<close>

record ('img, 'mat, 'info, 'pcm, 'pc, 'dp, 'n, 'ad, 'vo, 'f) env =
  imgMsgToCv :: "'img \<Rightarrow> string + 'mat"
  fromCameraInfo :: "'info \<Rightarrow> 'info \<Rightarrow> StereoCameraModel"
  fromROSMsg :: "'pcm \<Rightarrow> 'pc option"
  addFrame :: "CamParams \<Rightarrow> 'mat \<Rightarrow> 'mat \<Rightarrow> 'pc \<Rightarrow> ('n, 'ad, 'vo) VslamSystem
                \<Rightarrow> bool \<times> ('n, 'ad, 'vo) VslamSystem"
  refine :: "('n, 'ad, 'vo) VslamSystem \<Rightarrow> ('n, 'ad, 'vo) VslamSystem"
  setVORansacIt :: "int \<Rightarrow> ('n, 'ad, 'vo) VslamSystem \<Rightarrow> ('n, 'ad, 'vo) VslamSystem"
  setVOPolish :: "bool \<Rightarrow> ('n, 'ad, 'vo) VslamSystem \<Rightarrow> ('n, 'ad, 'vo) VslamSystem"
  update :: "'dp StereoVslamNodeConfig \<Rightarrow> 'ad \<Rightarrow> 'ad"
  default_point :: "'f PointXYZRGB"
  float_of_double :: "real \<Rightarrow> 'f"

text \<open>
  Modelled from the spec: \<^verbatim>\<open>VslamSystem::addFrame\<close> is called by the node and defined
  elsewhere. The specification gives its contract: it returns whether the frame was
  accepted; on acceptance the map grows by zero or more nodes, and nodes are never
  removed; a rejected frame leaves no trace in the map. The frame processor that takes
  the decision is the parameter \<open>fuse\<close>: it returns the new state of the rest of the
  system and, when it accepts the frame, the nodes to append and the new tracks.
\<close>

definition addFrame_spec ::
  "(CamParams \<Rightarrow> 'mat \<Rightarrow> 'mat \<Rightarrow> 'pc \<Rightarrow> ('n, 'ad, 'vo) VslamSystem
      \<Rightarrow> 'vo \<times> ('n list \<times> Track list) option)
   \<Rightarrow> CamParams \<Rightarrow> 'mat \<Rightarrow> 'mat \<Rightarrow> 'pc \<Rightarrow> ('n, 'ad, 'vo) VslamSystem
   \<Rightarrow> bool \<times> ('n, 'ad, 'vo) VslamSystem" where
  "addFrame_spec fuse cam_params left right ptcloud vs =
     (case fuse cam_params left right ptcloud vs of
        (vo', None) \<Rightarrow> (False, vs\<lparr>vs_vo := vo'\<rparr>)
      | (vo', Some (new_nodes, tracks')) \<Rightarrow>
          (True, vs\<lparr>vs_sba := \<lparr>nodes = nodes (vs_sba vs) @ new_nodes, tracks = tracks'\<rparr>,
                     vs_vo := vo'\<rparr>))"

section \<open>The node\<close>

text \<open>
  The members of \<^verbatim>\<open>StereoVslamNode\<close> that the callbacks read or write. What a callback
  logs and which collaborators it calls is the list of events it returns. A name cannot
  end with an underscore here: the members \<^verbatim>\<open>vslam_system_\<close>, \<^verbatim>\<open>detector_\<close> and
  \<^verbatim>\<open>pointcloud_pub_\<close> lose theirs, and the members \<^verbatim>\<open>sba_\<close> and \<^verbatim>\<open>vo_\<close> of the system
  are \<open>vs_sba\<close> and \<open>vs_vo\<close>.
\<close>

record ('n, 'ad, 'vo, 'f) StereoVslamNode =
  vslam_system :: "('n, 'ad, 'vo) VslamSystem"
  detector :: "'ad DetectorPtr"
  pointcloud_pub :: "'f Publisher"

datatype event =
    ROS_INFO_In_callback
  | ROS_ERROR_Conversion_error string
  | Call_addFrame
  | Call_drawGraph
  | Publish_vo_tracks
  | Call_publishPointclouds
  | ROS_INFO_Running_large_SBA int
  | Call_refine

text \<open>
  A callback returns, or the process is lost: an exception that no handler catches
  leaves the callback, or a null pointer is dereferenced.
\<close>

datatype fault = UncaughtException | NullDereference

text \<open>
  The constructor, lines 60 to 89: the detector is a new \<^verbatim>\<open>AnyDetector\<close>, whose
  default-constructed state is \<open>ad0\<close>; \<open>vs0\<close> is the system as constructed from the two
  vocabulary files, with the Calonder descriptor set.
\<close>

definition StereoVslamNode_ctor ::
  "'ad \<Rightarrow> ('n, 'ad, 'vo) VslamSystem \<Rightarrow> ('n, 'ad, 'vo, 'f) StereoVslamNode" where
  "StereoVslamNode_ctor ad0 vs0 =
     \<lparr>vslam_system = vs0, detector = Some (AnyDetector ad0), pointcloud_pub = []\<rparr>"

text \<open>
  \<^verbatim>\<open>configCb\<close>, lines 91 to 98. Line 93 calls \<^verbatim>\<open>update\<close> through the result of the
  \<^verbatim>\<open>dynamic_cast\<close> without a test; the call changes the detector object in place.
\<close>

definition configCb ::
  "('img, 'mat, 'info, 'pcm, 'pc, 'dp, 'n, 'ad, 'vo, 'f) env \<Rightarrow> 'dp StereoVslamNodeConfig
   \<Rightarrow> ('n, 'ad, 'vo, 'f) StereoVslamNode \<Rightarrow> fault + event list \<times> ('n, 'ad, 'vo, 'f) StereoVslamNode" where
  "configCb E config s =
     (case dynamic_cast_AnyDetector (detector s) of
        None \<Rightarrow> Inl NullDereference
      | Some d \<Rightarrow>
          let s1 = s\<lparr>detector := Some (AnyDetector (update E config d))\<rparr>;
              vs1 = (vslam_system s1)\<lparr>frame_processor_detector := detector s1\<rparr>;
              vs2 = setVORansacIt E (vo_ransac_iterations config) vs1;
              vs3 = setVOPolish E (vo_polish config) vs2
          in Inr ([], s1\<lparr>vslam_system := vs3\<rparr>))"

text \<open>Lines 119 to 126: the camera parameters of the frame.\<close>

definition cam_params_of ::
  "('img, 'mat, 'info, 'pcm, 'pc, 'dp, 'n, 'ad, 'vo, 'f) env \<Rightarrow> ('img, 'info, 'pcm) AlignedTuple
   \<Rightarrow> CamParams" where
  "cam_params_of E f =
     (let cam_model = fromCameraInfo E (l_cam_info f) (r_cam_info f)
      in \<lparr>fx = left_fx cam_model, fy = left_fy cam_model, cx = left_cx cam_model,
          cy = left_cy cam_model, tx = baseline cam_model\<rparr>)"

text \<open>
  Line 133 stores \<^verbatim>\<open>nodes.size()\<close>, a \<^verbatim>\<open>size_t\<close>, in an \<^verbatim>\<open>int\<close> of 32 bits: the
  conversion keeps the low 32 bits and reads them as a signed number, so a count from
  \<open>2 ^ 31\<close> on is not the number that the callback tests.
\<close>

definition int_of_size_t :: "nat \<Rightarrow> int" where
  "int_of_size_t n = sint (word_of_nat n :: 32 word)"

text \<open>
  Lines 147 and 148. The remainder of C++ truncates towards zero, unlike \<open>mod\<close> on a
  negative number.
\<close>

definition LARGE_SBA_INTERVAL :: int where
  "LARGE_SBA_INTERVAL = 1"

definition cpp_rem :: "int \<Rightarrow> int \<Rightarrow> int" where
  "cpp_rem a b = a - b * (sgn a * sgn b * (\<bar>a\<bar> div \<bar>b\<bar>))"

definition large_sba_due :: "int \<Rightarrow> bool" where
  "large_sba_due size' = (size' > 1 \<and> cpp_rem size' LARGE_SBA_INTERVAL = 0)"

text \<open>
  Lines 132 to 151, the branch of an accepted frame: \<open>vs1\<close> is the system as
  \<^verbatim>\<open>addFrame\<close> left it. \<^verbatim>\<open>drawGraph\<close> takes the map by \<^verbatim>\<open>const\<close> reference and
  \<^verbatim>\<open>drawVOtracks\<close> writes the display image only; both are events.
\<close>

definition accepted_frame ::
  "('img, 'mat, 'info, 'pcm, 'pc, 'dp, 'n, 'ad, 'vo, 'f) env \<Rightarrow> Subscribers
   \<Rightarrow> ('n, 'ad, 'vo) VslamSystem \<Rightarrow> ('n, 'ad, 'vo, 'f) StereoVslamNode
   \<Rightarrow> event list \<times> ('n, 'ad, 'vo, 'f) StereoVslamNode" where
  "accepted_frame E subs vs1 s =
     (let size' = int_of_size_t (length (nodes (vs_sba vs1)));
          ev_draw = [Call_drawGraph];
          ev_vo = (if vo_tracks_subscribers subs > 0 then [Publish_vo_tracks] else []);
          (vs2, pub2, ev_cloud) =
            (if pointcloud_subscribers subs > 0
             then let (sba', pub') =
                        publishPointclouds (float_of_double E) (default_point E) (vs_sba vs1)
                          (pointcloud_pub s)
                  in (vs1\<lparr>vs_sba := sba'\<rparr>, pub', [Call_publishPointclouds])
             else (vs1, pointcloud_pub s, []));
          (vs3, ev_sba) =
            (if large_sba_due size'
             then (refine E vs2, [ROS_INFO_Running_large_SBA size', Call_refine])
             else (vs2, []))
      in (ev_draw @ ev_vo @ ev_cloud @ ev_sba,
          s\<lparr>vslam_system := vs3, pointcloud_pub := pub2\<rparr>))"

text \<open>
  \<^verbatim>\<open>imageCb\<close>, lines 101 to 153. The two image conversions are inside the
  \<^verbatim>\<open>try\<close> block, whose handler logs and returns; the conversion of the point cloud is
  outside of it.
\<close>

definition imageCb ::
  "('img, 'mat, 'info, 'pcm, 'pc, 'dp, 'n, 'ad, 'vo, 'f) env \<Rightarrow> Subscribers
   \<Rightarrow> ('img, 'info, 'pcm) AlignedTuple \<Rightarrow> ('n, 'ad, 'vo, 'f) StereoVslamNode
   \<Rightarrow> fault + event list \<times> ('n, 'ad, 'vo, 'f) StereoVslamNode" where
  "imageCb E subs f s =
     (case imgMsgToCv E (l_image f) of
        Inl what \<Rightarrow> Inr ([ROS_INFO_In_callback, ROS_ERROR_Conversion_error what], s)
      | Inr left \<Rightarrow>
     (case imgMsgToCv E (r_image f) of
        Inl what \<Rightarrow> Inr ([ROS_INFO_In_callback, ROS_ERROR_Conversion_error what], s)
      | Inr right \<Rightarrow>
     (let cam_params = cam_params_of E f in
      case fromROSMsg E (ptcloud_msg f) of
        None \<Rightarrow> Inl UncaughtException
      | Some ptcloud \<Rightarrow>
     (let (accepted, vs1) = addFrame E cam_params left right ptcloud (vslam_system s) in
      if accepted
      then (let (evs, s') = accepted_frame E subs vs1 s
            in Inr ([ROS_INFO_In_callback, Call_addFrame] @ evs, s'))
      else Inr ([ROS_INFO_In_callback, Call_addFrame], s\<lparr>vslam_system := vs1\<rparr>)))))"

text \<open>
  \<^verbatim>\<open>main\<close> constructs the node and calls \<^verbatim>\<open>ros::spin()\<close>, which runs the callbacks of
  the arriving messages one after the other: a new configuration, or an aligned tuple
  of messages.
\<close>

datatype ('cfg, 'tuple) arrival = Reconfigure 'cfg | Images Subscribers 'tuple

definition dispatch ::
  "('img, 'mat, 'info, 'pcm, 'pc, 'dp, 'n, 'ad, 'vo, 'f) env
   \<Rightarrow> ('dp StereoVslamNodeConfig, ('img, 'info, 'pcm) AlignedTuple) arrival
   \<Rightarrow> ('n, 'ad, 'vo, 'f) StereoVslamNode \<Rightarrow> fault + event list \<times> ('n, 'ad, 'vo, 'f) StereoVslamNode" where
  "dispatch E a s =
     (case a of Reconfigure config \<Rightarrow> configCb E config s | Images subs f \<Rightarrow> imageCb E subs f s)"

fun spin ::
  "('img, 'mat, 'info, 'pcm, 'pc, 'dp, 'n, 'ad, 'vo, 'f) env
   \<Rightarrow> ('dp StereoVslamNodeConfig, ('img, 'info, 'pcm) AlignedTuple) arrival list
   \<Rightarrow> ('n, 'ad, 'vo, 'f) StereoVslamNode \<Rightarrow> fault + event list \<times> ('n, 'ad, 'vo, 'f) StereoVslamNode" where
  "spin E [] s = Inr ([], s)"
| "spin E (a # rest) s =
     (case dispatch E a s of
        Inl flt \<Rightarrow> Inl flt
      | Inr (evs, s1) \<Rightarrow>
          (case spin E rest s1 of
             Inl flt \<Rightarrow> Inl flt
           | Inr (evs', s2) \<Rightarrow> Inr (evs @ evs', s2)))"

section \<open>Reading the results\<close>

text \<open>The points of the message that a call of \<open>publishPointclouds\<close> publishes.\<close>

definition exported_points ::
  "(real \<Rightarrow> 'f) \<Rightarrow> 'f PointXYZRGB \<Rightarrow> 'n SysSBA \<Rightarrow> 'f Publisher \<Rightarrow> 'f PointXYZRGB list" where
  "exported_points narrow dflt sba pub =
     points (last (snd (publishPointclouds narrow dflt sba pub)))"

text \<open>The test of line 165, negated: the tracks that the loop body works on.\<close>

definition retained :: "Track \<Rightarrow> bool" where
  "retained t = (2 \<le> length (projections t))"

text \<open>
  The two quantities of a track as the specification words them: \<open>pointplane\<close> is the
  disjunction of \<open>useCovar\<close> over the valid projections, and \<open>lastFrame\<close> the maximum
  of their frame indices, 0 when there is no valid projection.
\<close>

definition valid_frames :: "ProjMap \<Rightarrow> int list" where
  "valid_frames prjs = map fst (filter (\<lambda>(frame, prj). isValid prj) prjs)"

definition spec_pointplane :: "ProjMap \<Rightarrow> bool" where
  "spec_pointplane prjs = (\<exists>(frame, prj) \<in> set prjs. isValid prj \<and> useCovar prj)"

definition spec_lastFrame :: "ProjMap \<Rightarrow> int" where
  "spec_lastFrame prjs = (if valid_frames prjs = [] then 0 else Max (set (valid_frames prjs)))"

text \<open>The events of a callback or of a run; none are kept when the process is lost.\<close>

definition events_of :: "fault + event list \<times> 's \<Rightarrow> event list" where
  "events_of res = (case res of Inl flt \<Rightarrow> [] | Inr (evs, s) \<Rightarrow> evs)"

text \<open>
  The exception that the \<^verbatim>\<open>try\<close> block of \<^verbatim>\<open>imageCb\<close> raises, if any: the right image is
  converted only when the left one was.
\<close>

definition image_decode_error ::
  "('img, 'mat, 'info, 'pcm, 'pc, 'dp, 'n, 'ad, 'vo, 'f) env \<Rightarrow> ('img, 'info, 'pcm) AlignedTuple
   \<Rightarrow> string option" where
  "image_decode_error E f =
     (case imgMsgToCv E (l_image f) of
        Inl what \<Rightarrow> Some what
      | Inr left \<Rightarrow>
          (case imgMsgToCv E (r_image f) of Inl what \<Rightarrow> Some what | Inr right \<Rightarrow> None))"

subsection \<open>Example inputs\<close>

text \<open>
  In the examples a \<^verbatim>\<open>float\<close> is the real number it stands for. The conversion of the
  examples agrees with the rounding to the nearest \<^verbatim>\<open>float\<close> on the coordinates that the
  example tracks have: the small integers are \<^verbatim>\<open>float\<close> numbers, and \<open>16777217\<close>, which
  is \<open>2 ^ 24 + 1\<close>, is not and rounds to \<open>2 ^ 24\<close>.
\<close>

definition example_float_of_double :: "real \<Rightarrow> real" where
  "example_float_of_double d = (if d = 16777217 then 16777216 else d)"

definition origin_point :: "real PointXYZRGB" where
  "origin_point = \<lparr>x = 0, y = 0, z = 0, rgb = 0\<rparr>"

definition track_single :: Track where
  "track_single = \<lparr>point = \<lparr>c0 = 1, c1 = 2, c2 = 3, c3 = 1\<rparr>,
                    projections = [(0, \<lparr>isValid = True, useCovar = False\<rparr>)]\<rparr>"

definition track_green :: Track where
  "track_green = \<lparr>point = \<lparr>c0 = 1, c1 = 2, c2 = 3, c3 = 1\<rparr>,
                   projections = [(1, \<lparr>isValid = True, useCovar = True\<rparr>),
                                  (2, \<lparr>isValid = True, useCovar = False\<rparr>),
                                  (5, \<lparr>isValid = False, useCovar = True\<rparr>)]\<rparr>"

definition track_negative :: Track where
  "track_negative = \<lparr>point = \<lparr>c0 = 1, c1 = 2, c2 = 3, c3 = 1\<rparr>,
                      projections = [(- 2, \<lparr>isValid = True, useCovar = True\<rparr>),
                                     (- 1, \<lparr>isValid = True, useCovar = False\<rparr>)]\<rparr>"

definition track_far :: Track where
  "track_far = \<lparr>point = \<lparr>c0 = 1, c1 = 2, c2 = 16777217, c3 = 1\<rparr>,
                 projections = [(1, \<lparr>isValid = True, useCovar = False\<rparr>),
                                (2, \<lparr>isValid = True, useCovar = False\<rparr>)]\<rparr>"

definition example_sba :: "unit SysSBA" where
  "example_sba = \<lparr>nodes = [(), ()], tracks = [track_single, track_green]\<rparr>"

text \<open>
  A small instance of the collaborators. An image message is the flag whether it
  converts; a point cloud message is \<open>None\<close> when its conversion throws and else carries
  the flag whether the frame processor will accept the frame, which then adds one node
  to the map. The rest of the system is the pair of the two settings of visual odometry,
  and a detector is the detector fields it was last updated with.
\<close>

type_synonym example_system = "(unit, nat, int \<times> bool) VslamSystem"

definition example_fuse ::
  "CamParams \<Rightarrow> unit \<Rightarrow> unit \<Rightarrow> bool \<Rightarrow> example_system
   \<Rightarrow> (int \<times> bool) \<times> (unit list \<times> Track list) option" where
  "example_fuse cam_params left right ptcloud vs =
     (vs_vo vs, if ptcloud then Some ([()], tracks (vs_sba vs)) else None)"

definition example_env ::
  "(bool, unit, unit, bool option, bool, nat, unit, nat, int \<times> bool, real) env" where
  "example_env =
     \<lparr>imgMsgToCv = (\<lambda>ok. if ok then Inr () else Inl ''unsupported encoding''),
      fromCameraInfo =
        (\<lambda>l r. \<lparr>left_fx = 1, left_fy = 1, left_cx = 0, left_cy = 0, baseline = 1\<rparr>),
      fromROSMsg = (\<lambda>msg. msg),
      addFrame = addFrame_spec example_fuse,
      refine = (\<lambda>vs. vs),
      setVORansacIt = (\<lambda>n vs. vs\<lparr>vs_vo := (n, snd (vs_vo vs))\<rparr>),
      setVOPolish = (\<lambda>b vs. vs\<lparr>vs_vo := (fst (vs_vo vs), b)\<rparr>),
      update = (\<lambda>config d. detector_fields config),
      default_point = origin_point,
      float_of_double = example_float_of_double\<rparr>"

definition empty_system :: example_system where
  "empty_system =
     \<lparr>vs_sba = \<lparr>nodes = [], tracks = []\<rparr>, frame_processor_detector = None,
      vs_vo = (0, False)\<rparr>"

definition example_node :: "(unit, nat, int \<times> bool, real) StereoVslamNode" where
  "example_node = StereoVslamNode_ctor 0 empty_system"

text \<open>A node whose map is one node short of \<open>2 ^ 31\<close> nodes.\<close>

definition many_nodes :: "unit list" where
  "many_nodes = replicate 2147483647 ()"

definition crowded_node :: "(unit, nat, int \<times> bool, real) StereoVslamNode" where
  "crowded_node =
     StereoVslamNode_ctor 0
       \<lparr>vs_sba = \<lparr>nodes = many_nodes, tracks = []\<rparr>, frame_processor_detector = None,
        vs_vo = (0, False)\<rparr>"

definition frame_accepted :: "(bool, unit, bool option) AlignedTuple" where
  "frame_accepted = \<lparr>l_image = True, l_cam_info = (), r_image = True, r_cam_info = (),
                      ptcloud_msg = Some True\<rparr>"

definition frame_rejected :: "(bool, unit, bool option) AlignedTuple" where
  "frame_rejected = \<lparr>l_image = True, l_cam_info = (), r_image = True, r_cam_info = (),
                      ptcloud_msg = Some False\<rparr>"

definition frame_bad_cloud :: "(bool, unit, bool option) AlignedTuple" where
  "frame_bad_cloud = \<lparr>l_image = True, l_cam_info = (), r_image = True, r_cam_info = (),
                       ptcloud_msg = None\<rparr>"

definition no_subscribers :: Subscribers where
  "no_subscribers = \<lparr>vo_tracks_subscribers = 0, pointcloud_subscribers = 0\<rparr>"

definition example_config :: "nat StereoVslamNodeConfig" where
  "example_config = \<lparr>vo_ransac_iterations = 1000, vo_polish = True, detector_fields = 7\<rparr>"

section \<open>Properties of the export\<close>

lemma publish_loop_sba: "fst (publish_loop fd i st) = fst st"
proof (induction fd i st rule: publish_loop.induct)
  case (1 fd i sba cloud)
  show ?case
    by (subst publish_loop.simps) (simp add: 1)
qed

lemma publish_loop_length: "length (snd (publish_loop fd i st)) = length (snd st)"
proof (induction fd i st rule: publish_loop.induct)
  case (1 fd i sba cloud)
  show ?case
    by (subst publish_loop.simps) (simp add: 1)
qed

lemma publish_loop_nth:
  "j < length (snd st) \<Longrightarrow> length (snd st) = length (tracks (fst st)) \<Longrightarrow>
   snd (publish_loop fd i st) ! j =
     (if i \<le> j then export_track fd (tracks (fst st) ! j) (snd st ! j) else snd st ! j)"
proof (induction fd i st rule: publish_loop.induct)
  case (1 fd i sba cloud)
  let ?cloud' = "cloud[i := export_track fd (tracks sba ! i) (cloud ! i)]"
  show ?case
  proof (cases "i < length (tracks sba)")
    case True
    have "snd (publish_loop fd i (sba, cloud)) ! j
            = snd (publish_loop fd (Suc i) (sba, ?cloud')) ! j"
      using True by (subst publish_loop.simps) simp
    also have "\<dots> = (if Suc i \<le> j then export_track fd (tracks sba ! j) (?cloud' ! j)
                     else ?cloud' ! j)"
      using 1 True by simp
    also have "\<dots> = (if i \<le> j then export_track fd (tracks sba ! j) (cloud ! j)
                     else cloud ! j)"
      using 1(2,3) True by (cases "i = j") auto
    finally show ?thesis by simp
  next
    case False
    with 1(2,3) show ?thesis
      by (subst publish_loop.simps) simp
  qed
qed

lemma publishPointclouds_eq:
  "publishPointclouds fd dflt sba pub =
     (sba, pub @ [\<lparr>frame_id = ''/pgraph'',
                    points = map (\<lambda>t. export_track fd t dflt) (tracks sba)\<rparr>])"
proof -
  let ?cloud = "replicate (length (tracks sba)) dflt"
  let ?out = "map (\<lambda>t. export_track fd t dflt) (tracks sba)"
  have a: "fst (publish_loop fd 0 (sba, ?cloud)) = sba"
    by (simp add: publish_loop_sba)
  have b: "snd (publish_loop fd 0 (sba, ?cloud)) = ?out"
  proof (rule nth_equalityI)
    show "length (snd (publish_loop fd 0 (sba, ?cloud))) = length ?out"
      by (simp add: publish_loop_length)
  next
    fix j assume "j < length (snd (publish_loop fd 0 (sba, ?cloud)))"
    then have "j < length (tracks sba)"
      by (simp add: publish_loop_length)
    then show "snd (publish_loop fd 0 (sba, ?cloud)) ! j = ?out ! j"
      using publish_loop_nth [of j "(sba, ?cloud)" fd 0] by simp
  qed
  obtain s c where sc: "publish_loop fd 0 (sba, ?cloud) = (s, c)"
    by (cases "publish_loop fd 0 (sba, ?cloud)")
  with a b have "s = sba" and "c = ?out"
    by simp_all
  with sc show ?thesis
    by (simp add: publishPointclouds_def)
qed

lemma exported_points_eq:
  "exported_points fd dflt sba pub = map (\<lambda>t. export_track fd t dflt) (tracks sba)"
  by (simp add: exported_points_def publishPointclouds_eq)

lemma scan_projections_fold:
  "scan_projections prjs (pp, lf) = (pp \<or> spec_pointplane prjs, fold max (valid_frames prjs) lf)"
  by (induction prjs arbitrary: pp lf)
     (auto simp: spec_pointplane_def valid_frames_def max.commute)

lemma scan_projections_Max:
  "scan_projections prjs (False, 0)
     = (spec_pointplane prjs, Max (insert 0 (set (valid_frames prjs))))"
proof -
  have "fold max (valid_frames prjs) 0 = Max (set (0 # valid_frames prjs))"
    by (simp only: Max.set_eq_fold)
  then show ?thesis
    by (simp add: scan_projections_fold)
qed

lemma Max_insert_0: "Max (insert 0 (set (valid_frames prjs))) = max 0 (spec_lastFrame prjs)"
  by (simp add: spec_lastFrame_def)

lemma track_color_floor: "track_color pp (max 0 lf) = track_color pp lf"
  by (auto simp: track_color_def max_def)

lemma rgb_export_track:
  "retained t \<Longrightarrow> rgb (export_track fd t p) =
     (case track_color (spec_pointplane (projections t)) (spec_lastFrame (projections t)) of
        (r, g, b) \<Rightarrow> rgb_packed r g b)"
  by (simp add: export_track_def retained_def Let_def scan_projections_Max Max_insert_0
        track_color_floor split: prod.splits)

lemma rgb_packed_bytes:
  "ucast (drop_bit 16 (rgb_packed r g b)) = r"
  "ucast (drop_bit 8 (rgb_packed r g b)) = g"
  "ucast (rgb_packed r g b) = b"
  "drop_bit 24 (rgb_packed r g b) = 0"
  unfolding rgb_packed_def
  by (rule bit_word_eqI; auto simp: bit_simps dest: bit_imp_le_length)+

text \<open>The five colours of the lookup, packed.\<close>

lemma packed_track_color:
  "(case track_color pp lf of (r, g, b) \<Rightarrow> rgb_packed r g b) =
     (if \<not> pp then 16777215
      else if lf = 1 then 16711680
      else if lf = 2 then 65280
      else if lf = 3 then 255
      else 9868950)"
  by (simp add: track_color_def rgb_packed_def)

lemma export_track_retained:
  assumes "2 \<le> length (projections t)"
  shows "export_track fd t p =
           p\<lparr>x := fd (c2 (point t)), y := fd (- c0 (point t)), z := fd (- c1 (point t)),
             rgb := (case track_color (spec_pointplane (projections t))
                            (spec_lastFrame (projections t)) of
                       (r, g, b) \<Rightarrow> rgb_packed r g b)\<rparr>"
  using assms
  by (simp add: export_track_def Let_def scan_projections_Max Max_insert_0
        track_color_floor split: prod.splits)

lemma export_track_skipped:
  assumes "length (projections t) < 2"
  shows "export_track fd t p = p"
  using assms by (simp add: export_track_def Let_def)

subsection \<open>The length of the cloud\<close>

text \<open>
  C9. Every call of the export publishes one message, whose cloud has exactly as many
  points as the map has tracks: a track with fewer than two projections, which the loop
  skips, keeps its index in the cloud, and the point there is the default-constructed
  one.
\<close>

theorem cloud_has_one_entry_per_track:
  "snd (publishPointclouds narrow dflt sba pub)
     = pub @ [\<lparr>frame_id = ''/pgraph'', points = exported_points narrow dflt sba pub\<rparr>]
   \<and> length (exported_points narrow dflt sba pub) = length (tracks sba)
   \<and> (\<forall>i < length (tracks sba).
        length (projections (tracks sba ! i)) < 2
          \<longrightarrow> exported_points narrow dflt sba pub ! i = dflt)"
  by (simp add: exported_points_eq publishPointclouds_eq export_track_def Let_def)

theorem cloud_has_one_entry_per_track_witness:
  "length (exported_points example_float_of_double origin_point example_sba []) = 2
   \<and> length (projections (tracks example_sba ! 0)) = 1
   \<and> exported_points example_float_of_double origin_point example_sba [] ! 0 = origin_point"
  using cloud_has_one_entry_per_track [of example_float_of_double origin_point example_sba "[]"]
  by (simp add: example_sba_def track_single_def track_green_def)

text \<open>
  C2, as amended. The cloud has one entry for every track, at the track's index. The
  entry of a track with at least two projections (valid or not) is the exported point of
  the track: the default-constructed point with the track's position, its axes changed
  and its components converted to \<^verbatim>\<open>float\<close>, and with the packed colour of the track,
  which is white without \<open>pointplane\<close>, else red, green or blue for the last frame 1, 2
  or 3 and gray for every other one. The entry of a track with fewer than two
  projections is not left out: it is the default-constructed point.
\<close>

theorem entries_of_retained_tracks:
  "length (exported_points narrow dflt sba pub) = length (tracks sba)
   \<and> (\<forall>i < length (tracks sba).
        exported_points narrow dflt sba pub ! i =
          (let t = tracks sba ! i; prjs = projections t in
           if 2 \<le> length prjs
           then dflt\<lparr>x := narrow (c2 (point t)),
                     y := narrow (- c0 (point t)),
                     z := narrow (- c1 (point t)),
                     rgb := (if \<not> spec_pointplane prjs then 16777215
                             else if spec_lastFrame prjs = 1 then 16711680
                             else if spec_lastFrame prjs = 2 then 65280
                             else if spec_lastFrame prjs = 3 then 255
                             else 9868950)\<rparr>
           else dflt))"
proof -
  have "export_track narrow t dflt =
          (if 2 \<le> length (projections t)
           then dflt\<lparr>x := narrow (c2 (point t)),
                     y := narrow (- c0 (point t)),
                     z := narrow (- c1 (point t)),
                     rgb := (if \<not> spec_pointplane (projections t) then 16777215
                             else if spec_lastFrame (projections t) = 1 then 16711680
                             else if spec_lastFrame (projections t) = 2 then 65280
                             else if spec_lastFrame (projections t) = 3 then 255
                             else 9868950)\<rparr>
           else dflt)" for t
  proof (cases "2 \<le> length (projections t)")
    case True
    then show ?thesis
      by (simp only: export_track_retained [OF True] packed_track_color if_True)
  next
    case False
    then have "length (projections t) < 2" by simp
    from export_track_skipped [OF this] False show ?thesis
      by simp
  qed
  then show ?thesis
    by (simp add: exported_points_eq Let_def)
qed

theorem entries_of_retained_tracks_witness:
  "length (exported_points example_float_of_double origin_point example_sba []) = 2
   \<and> exported_points example_float_of_double origin_point example_sba [] ! 0 = origin_point
   \<and> exported_points example_float_of_double origin_point example_sba [] ! 1
       = \<lparr>x = 3, y = - 1, z = - 2, rgb = 65280\<rparr>"
  using entries_of_retained_tracks [of example_float_of_double origin_point example_sba "[]"]
  by (simp add: example_sba_def track_single_def track_green_def origin_point_def
      example_float_of_double_def spec_pointplane_def spec_lastFrame_def valid_frames_def Let_def)

text \<open>
  The claim as it was stated asks for as many entries as there are tracks with at least
  two projections. A map whose only track has one projection has none of those, and its
  cloud has one point.
\<close>

theorem one_entry_per_retained_track_counterexample:
  "length (exported_points example_float_of_double origin_point
             \<lparr>nodes = [()], tracks = [track_single]\<rparr> [])
     \<noteq> length (filter retained (tracks \<lparr>nodes = [()], tracks = [track_single]\<rparr>))"
  by (simp add: exported_points_eq retained_def track_single_def)

subsection \<open>Colour\<close>

text \<open>
  C3, as amended. The scan of a track's projections skips the invalid ones and yields
  \<open>pointplane\<close> as the disjunction of \<open>useCovar\<close> over the valid ones, and \<open>lastFrame\<close>
  as the maximum of 0 and of their frame indices, which is the maximum of the frame
  indices (0 without a valid projection) whenever no valid frame index is negative.
  The colour of a retained track is the lookup at \<open>pointplane\<close> and at the maximum of the
  valid frame indices in either case: white without \<open>pointplane\<close>, else red, green or
  blue for 1, 2 or 3 and gray for every other value. The packed colour holds the red
  byte in bits 16 to 23, the green byte in bits 8 to 15, the blue byte in bits 0 to 7 and
  nothing above.
\<close>

theorem scan_and_colour_of_track:
  "scan_projections prjs (False, 0) = (spec_pointplane prjs, max 0 (spec_lastFrame prjs))
   \<and> ((\<forall>frame \<in> set (valid_frames prjs). 0 \<le> frame)
        \<longrightarrow> scan_projections prjs (False, 0) = (spec_pointplane prjs, spec_lastFrame prjs))
   \<and> (retained t \<longrightarrow>
        rgb (export_track narrow t p) =
          (case track_color (spec_pointplane (projections t)) (spec_lastFrame (projections t)) of
             (r, g, b) \<Rightarrow> rgb_packed r g b))
   \<and> track_color False lf = (255, 255, 255)
   \<and> track_color True 1 = (255, 0, 0)
   \<and> track_color True 2 = (0, 255, 0)
   \<and> track_color True 3 = (0, 0, 255)
   \<and> (lf \<noteq> 1 \<and> lf \<noteq> 2 \<and> lf \<noteq> 3 \<longrightarrow> track_color True lf = (150, 150, 150))
   \<and> rgb_packed r g b = push_bit 16 (ucast r) OR push_bit 8 (ucast g) OR ucast b
   \<and> ucast (drop_bit 16 (rgb_packed r g b)) = r
   \<and> ucast (drop_bit 8 (rgb_packed r g b)) = g
   \<and> ucast (rgb_packed r g b) = b
   \<and> drop_bit 24 (rgb_packed r g b) = 0"
proof -
  have scan: "scan_projections prjs (False, 0) = (spec_pointplane prjs, max 0 (spec_lastFrame prjs))"
    by (simp add: scan_projections_Max Max_insert_0)
  have nonneg: "max 0 (spec_lastFrame prjs) = spec_lastFrame prjs"
    if "\<forall>frame \<in> set (valid_frames prjs). 0 \<le> frame"
    using that by (auto simp: spec_lastFrame_def max_def)
  have table: "track_color False lf = (255, 255, 255)" "track_color True 1 = (255, 0, 0)"
    "track_color True 2 = (0, 255, 0)" "track_color True 3 = (0, 0, 255)"
    "lf \<noteq> 1 \<and> lf \<noteq> 2 \<and> lf \<noteq> 3 \<longrightarrow> track_color True lf = (150, 150, 150)"
    by (simp_all add: track_color_def)
  show ?thesis
    using scan nonneg table rgb_export_track [of t narrow p] rgb_packed_bytes [of r g b]
    by (simp add: rgb_packed_def)
qed

theorem scan_and_colour_of_track_witness:
  "retained track_green
   \<and> scan_projections (projections track_green) (False, 0) = (True, 2)
   \<and> rgb (export_track example_float_of_double track_green origin_point) = rgb_packed 0 255 0
   \<and> rgb_packed 0 255 0 = 65280
   \<and> track_color True 5 = (150, 150, 150)"
  using scan_and_colour_of_track [of "projections track_green" track_green
      example_float_of_double origin_point 5 0 255 0]
  by (simp add: retained_def track_green_def spec_pointplane_def spec_lastFrame_def
      valid_frames_def track_color_def rgb_packed_def)

text \<open>
  The claim as it was stated takes \<open>lastFrame\<close> to be the maximum of the valid frame
  indices whenever there is one. On a track whose frame indices are negative the scan
  stops at its initial value 0.
\<close>

theorem lastFrame_counterexample:
  "retained track_negative
   \<and> snd (scan_projections (projections track_negative) (False, 0)) = 0
   \<and> spec_lastFrame (projections track_negative) = - 1
   \<and> scan_projections (projections track_negative) (False, 0)
       \<noteq> (spec_pointplane (projections track_negative),
           spec_lastFrame (projections track_negative))"
  by (simp add: retained_def track_negative_def spec_lastFrame_def valid_frames_def)

subsection \<open>Position\<close>

text \<open>
  C4, as amended. The exported position of a retained track is its internal position
  \<open>(x, y, z)\<close> sent to \<open>(z, -x, -y)\<close>, each component converted from \<^verbatim>\<open>double\<close> to the
  \<^verbatim>\<open>float\<close> of the exported point. The change of axes is a cycle of order three: applied
  twice it sends \<open>(x, y, z)\<close> to \<open>(-y, -z, x)\<close>, and applied three times it yields
  \<open>(x, y, z)\<close> again.
\<close>

theorem axis_remap_order_three:
  "(retained t \<longrightarrow>
      position (export_track narrow t p) =
        (case axis_remap (internal_position t) of
           (ex, ey, ez) \<Rightarrow> (narrow ex, narrow ey, narrow ez)))
   \<and> axis_remap (px, py, pz) = (pz, - px, - py)
   \<and> axis_remap (axis_remap (px, py, pz)) = (- py, - pz, px)
   \<and> axis_remap (axis_remap (axis_remap q)) = q"
  by (cases q) (simp add: axis_remap_def position_def internal_position_def export_track_def
      retained_def Let_def split: prod.splits)

theorem axis_remap_order_three_witness:
  "retained track_far
   \<and> axis_remap (internal_position track_far) = (16777217, - 1, - 2)
   \<and> position (export_track example_float_of_double track_far origin_point)
       = (16777216, - 1, - 2)
   \<and> axis_remap (axis_remap (axis_remap (1, 2, 3))) = (1, 2, 3)"
  using axis_remap_order_three [of track_far example_float_of_double origin_point 1 2 3 "(1, 2, 3)"]
  by (simp add: retained_def track_far_def axis_remap_def internal_position_def
      example_float_of_double_def)

text \<open>
  The claim as it was stated has the change of axes undo itself, and the exported
  coordinates equal to the internal ones. Applied twice to the position \<open>(1, 2, 3)\<close> of
  an example track the change of axes gives \<open>(-2, -3, 1)\<close>; and the exported \<open>x\<close> of a
  track whose \<open>z\<close> is \<open>2 ^ 24 + 1\<close> is the \<^verbatim>\<open>float\<close> \<open>2 ^ 24\<close>.
\<close>

theorem axis_remap_twice_counterexample:
  "axis_remap (axis_remap (internal_position track_green)) = (- 2, - 3, 1)
   \<and> axis_remap (axis_remap (internal_position track_green)) \<noteq> internal_position track_green
   \<and> x (export_track example_float_of_double track_far origin_point) \<noteq> c2 (point track_far)"
  by (simp add: axis_remap_def internal_position_def track_green_def track_far_def
      export_track_def example_float_of_double_def Let_def split: prod.splits)

subsection \<open>The map after the export\<close>

text \<open>
  C7. The export does not write to the map: after every call the map, with its nodes,
  its tracks and their projections, is the one that the call received.
\<close>

theorem export_leaves_map_unchanged:
  "fst (publishPointclouds narrow dflt sba pub) = sba"
  by (simp add: publishPointclouds_eq)

section \<open>Properties of the callbacks\<close>

lemma cpp_rem_1: "cpp_rem a 1 = 0"
  by (simp add: cpp_rem_def sgn_mult_abs)

lemma large_sba_due_iff: "large_sba_due n \<longleftrightarrow> 1 < n"
  by (simp add: large_sba_due_def LARGE_SBA_INTERVAL_def cpp_rem_1)

lemma int_of_size_t_small: "n < 2 ^ 31 \<Longrightarrow> int_of_size_t n = int n"
proof -
  assume "n < 2 ^ 31"
  then have "int n < 2 ^ 31"
    by (metis of_nat_less_iff of_nat_numeral of_nat_power)
  then have "signed_take_bit 31 (int n) = int n"
    by (simp add: signed_take_bit_int_eq_self)
  then show ?thesis
    by (simp add: int_of_size_t_def signed_of_nat)
qed

lemma length_many_nodes: "length many_nodes = 2147483647"
  by (simp only: many_nodes_def length_replicate)

lemma accepted_frame_eq:
  "accepted_frame E subs vs1 s =
     ([Call_drawGraph]
      @ (if vo_tracks_subscribers subs > 0 then [Publish_vo_tracks] else [])
      @ (if pointcloud_subscribers subs > 0 then [Call_publishPointclouds] else [])
      @ (if 1 < int_of_size_t (length (nodes (vs_sba vs1)))
         then [ROS_INFO_Running_large_SBA (int_of_size_t (length (nodes (vs_sba vs1)))),
               Call_refine]
         else []),
      s\<lparr>vslam_system :=
          (if 1 < int_of_size_t (length (nodes (vs_sba vs1))) then refine E vs1 else vs1),
        pointcloud_pub :=
          (if pointcloud_subscribers subs > 0
           then snd (publishPointclouds (float_of_double E) (default_point E) (vs_sba vs1)
                       (pointcloud_pub s))
           else pointcloud_pub s)\<rparr>)"
  by (simp add: accepted_frame_def Let_def large_sba_due_iff publishPointclouds_eq)

lemma imageCb_accepted:
  assumes "imgMsgToCv E (l_image f) = Inr left" and "imgMsgToCv E (r_image f) = Inr right"
    and "fromROSMsg E (ptcloud_msg f) = Some ptcloud"
    and "addFrame E (cam_params_of E f) left right ptcloud (vslam_system s) = (True, vs1)"
  shows "imageCb E subs f s =
           Inr ([ROS_INFO_In_callback, Call_addFrame] @ fst (accepted_frame E subs vs1 s),
                snd (accepted_frame E subs vs1 s))"
  using assms by (simp add: imageCb_def Let_def split: prod.splits)

lemma imageCb_rejected:
  assumes "imgMsgToCv E (l_image f) = Inr left" and "imgMsgToCv E (r_image f) = Inr right"
    and "fromROSMsg E (ptcloud_msg f) = Some ptcloud"
    and "addFrame E (cam_params_of E f) left right ptcloud (vslam_system s) = (False, vs1)"
  shows "imageCb E subs f s =
           Inr ([ROS_INFO_In_callback, Call_addFrame], s\<lparr>vslam_system := vs1\<rparr>)"
  using assms by (simp add: imageCb_def Let_def)

subsection \<open>The refinement after a frame\<close>

text \<open>
  C1, as amended. When the frame is accepted, the callback calls \<open>refine\<close> if and only if
  the number of nodes of the map, as line 133 reads it into the \<^verbatim>\<open>int\<close> \<open>size\<close>,
  satisfies \<open>size > 1\<close> and \<open>size mod LARGE_SBA_INTERVAL = 0\<close>, where the interval is the
  constant 1; it then calls it once. For every number \<open>n\<close> of nodes below \<open>2 ^ 31\<close> the
  number read is \<open>n\<close>, and \<open>refine\<close> is called if and only if \<open>n > 1\<close> and
  \<open>n mod LARGE_SBA_INTERVAL = 0\<close>. So after the node counts 1, 2, 3 and 4 it is called
  for 2, 3 and 4 and not for 1.
\<close>

theorem refine_after_accepted_frame:
  assumes "imgMsgToCv E (l_image f) = Inr left" and "imgMsgToCv E (r_image f) = Inr right"
    and "fromROSMsg E (ptcloud_msg f) = Some ptcloud"
    and "addFrame E (cam_params_of E f) left right ptcloud (vslam_system s) = (True, vs')"
    and "n = length (nodes (vs_sba vs'))"
  shows "(\<exists>s'. imageCb E subs f s = Inr (events_of (imageCb E subs f s), s')
            \<and> vslam_system s'
                = (if int_of_size_t n > 1 \<and> int_of_size_t n mod LARGE_SBA_INTERVAL = 0
                   then refine E vs' else vs'))
       \<and> (Call_refine \<in> set (events_of (imageCb E subs f s))
            \<longleftrightarrow> int_of_size_t n > 1 \<and> int_of_size_t n mod LARGE_SBA_INTERVAL = 0)
       \<and> LARGE_SBA_INTERVAL = 1
       \<and> count_list (events_of (imageCb E subs f s)) Call_refine
           = (if int_of_size_t n > 1 then 1 else 0)
       \<and> (n < 2 ^ 31 \<longrightarrow>
            int_of_size_t n = int n
            \<and> (Call_refine \<in> set (events_of (imageCb E subs f s))
                 \<longleftrightarrow> int n > 1 \<and> int n mod LARGE_SBA_INTERVAL = 0))
       \<and> (n = 1 \<longrightarrow> Call_refine \<notin> set (events_of (imageCb E subs f s)))
       \<and> (n = 2 \<or> n = 3 \<or> n = 4 \<longrightarrow> Call_refine \<in> set (events_of (imageCb E subs f s)))"
proof -
  have ev: "events_of (imageCb E subs f s) =
      [ROS_INFO_In_callback, Call_addFrame, Call_drawGraph]
      @ (if vo_tracks_subscribers subs > 0 then [Publish_vo_tracks] else [])
      @ (if pointcloud_subscribers subs > 0 then [Call_publishPointclouds] else [])
      @ (if 1 < int_of_size_t n then [ROS_INFO_Running_large_SBA (int_of_size_t n), Call_refine]
         else [])"
    by (simp add: imageCb_accepted [OF assms(1-4)] events_of_def accepted_frame_eq assms(5))
  have st: "\<exists>s'. imageCb E subs f s = Inr (events_of (imageCb E subs f s), s')
      \<and> vslam_system s' = (if 1 < int_of_size_t n then refine E vs' else vs')"
    by (simp add: imageCb_accepted [OF assms(1-4)] events_of_def accepted_frame_eq assms(5))
  have small: "int_of_size_t n = int n" if "n < 2 ^ 31"
    using that by (rule int_of_size_t_small)
  have s1: "int_of_size_t 1 = 1" and s2: "int_of_size_t 2 = 2" and s3: "int_of_size_t 3 = 3"
    and s4: "int_of_size_t 4 = 4"
    by (simp_all add: int_of_size_t_small)
  show ?thesis
    using st small s1 s2 s3 s4 by (auto simp: ev LARGE_SBA_INTERVAL_def)
qed

theorem refine_after_accepted_frame_witness:
  "addFrame example_env (cam_params_of example_env frame_accepted) () () True
       (vslam_system example_node)
     = (True, empty_system\<lparr>vs_sba := \<lparr>nodes = [()], tracks = []\<rparr>\<rparr>)
   \<and> Call_refine \<notin> set (events_of (imageCb example_env no_subscribers frame_accepted example_node))
   \<and> events_of (spin example_env
        [Images no_subscribers frame_accepted, Images no_subscribers frame_accepted,
         Images no_subscribers frame_accepted, Images no_subscribers frame_accepted] example_node)
      = [ROS_INFO_In_callback, Call_addFrame, Call_drawGraph,
         ROS_INFO_In_callback, Call_addFrame, Call_drawGraph,
           ROS_INFO_Running_large_SBA 2, Call_refine,
         ROS_INFO_In_callback, Call_addFrame, Call_drawGraph,
           ROS_INFO_Running_large_SBA 3, Call_refine,
         ROS_INFO_In_callback, Call_addFrame, Call_drawGraph,
           ROS_INFO_Running_large_SBA 4, Call_refine]"
proof -
  have run: "events_of (spin example_env
        [Images no_subscribers frame_accepted, Images no_subscribers frame_accepted,
         Images no_subscribers frame_accepted, Images no_subscribers frame_accepted] example_node)
      = [ROS_INFO_In_callback, Call_addFrame, Call_drawGraph,
         ROS_INFO_In_callback, Call_addFrame, Call_drawGraph,
           ROS_INFO_Running_large_SBA 2, Call_refine,
         ROS_INFO_In_callback, Call_addFrame, Call_drawGraph,
           ROS_INFO_Running_large_SBA 3, Call_refine,
         ROS_INFO_In_callback, Call_addFrame, Call_drawGraph,
           ROS_INFO_Running_large_SBA 4, Call_refine]"
    by (simp add: events_of_def dispatch_def imageCb_def accepted_frame_eq example_env_def
        frame_accepted_def example_node_def StereoVslamNode_ctor_def empty_system_def
        no_subscribers_def addFrame_spec_def example_fuse_def cam_params_of_def Let_def
        int_of_size_t_def)
  show ?thesis
    using run refine_after_accepted_frame [where E = example_env and f = frame_accepted
        and left = "()" and right = "()" and ptcloud = True and s = example_node
        and vs' = "empty_system\<lparr>vs_sba := \<lparr>nodes = [()], tracks = []\<rparr>\<rparr>" and n = 1
        and subs = no_subscribers]
    by (simp add: example_env_def frame_accepted_def example_node_def StereoVslamNode_ctor_def
        empty_system_def addFrame_spec_def example_fuse_def)
qed

text \<open>
  The claim as it was stated tests the number of nodes itself. When the accepted frame
  brings the map to \<open>2 ^ 31\<close> nodes, that number is above 1 and a multiple of the
  interval, the \<^verbatim>\<open>int\<close> that the callback tests is \<open>- (2 ^ 31)\<close>, and \<open>refine\<close> is not
  called.
\<close>

theorem refine_at_int_overflow_counterexample:
  "addFrame example_env (cam_params_of example_env frame_accepted) () () True
       (vslam_system crowded_node)
     = (True, \<lparr>vs_sba = \<lparr>nodes = many_nodes @ [()], tracks = []\<rparr>,
               frame_processor_detector = None, vs_vo = (0, False)\<rparr>)
   \<and> int (length (many_nodes @ [()])) = 2147483648
   \<and> (1 :: int) < 2147483648
   \<and> (2147483648 :: int) mod LARGE_SBA_INTERVAL = 0
   \<and> int_of_size_t (length (many_nodes @ [()])) = - 2147483648
   \<and> Call_refine \<notin> set (events_of (imageCb example_env no_subscribers frame_accepted crowded_node))"
  by (simp add: events_of_def imageCb_def accepted_frame_eq example_env_def
      frame_accepted_def crowded_node_def StereoVslamNode_ctor_def length_many_nodes
      no_subscribers_def addFrame_spec_def example_fuse_def cam_params_of_def Let_def
      int_of_size_t_def LARGE_SBA_INTERVAL_def)

subsection \<open>Decode errors\<close>

text \<open>
  The handler of the \<^verbatim>\<open>try\<close> block, lines 115 to 118: when the conversion of the left
  or of the right image throws, the callback logs the error and returns, and
  \<open>addFrame\<close> is not called.
\<close>

lemma imageCb_decode_error:
  assumes "image_decode_error E f = Some what"
  shows "imageCb E subs f s = Inr ([ROS_INFO_In_callback, ROS_ERROR_Conversion_error what], s)"
  using assms by (auto simp: imageCb_def image_decode_error_def split: sum.splits)

text \<open>
  C5. The claim has a malformed point cloud logged and skipped as a malformed image is,
  and the callback does not do that: the conversion of the point cloud, line 129, is
  outside of the \<^verbatim>\<open>try\<close> block. On a tuple whose images convert and whose point cloud
  conversion throws, the callback logs no error and does not return: the exception
  leaves it, and the arrival that follows is not processed.
\<close>

theorem point_cloud_decode_error_escapes:
  "image_decode_error example_env frame_bad_cloud = None
   \<and> fromROSMsg example_env (ptcloud_msg frame_bad_cloud) = None
   \<and> imageCb example_env no_subscribers frame_bad_cloud example_node = Inl UncaughtException
   \<and> spin example_env
        [Images no_subscribers frame_bad_cloud, Images no_subscribers frame_accepted] example_node
       = Inl UncaughtException
   \<and> events_of (spin example_env [Images no_subscribers frame_accepted] example_node)
       = [ROS_INFO_In_callback, Call_addFrame, Call_drawGraph]"
  by (simp add: image_decode_error_def dispatch_def imageCb_def example_env_def
      frame_bad_cloud_def frame_accepted_def Let_def events_of_def accepted_frame_eq
      example_node_def StereoVslamNode_ctor_def empty_system_def no_subscribers_def
      addFrame_spec_def example_fuse_def cam_params_of_def int_of_size_t_def)

subsection \<open>Rejected frames\<close>

text \<open>
  C6. When \<open>addFrame\<close> returns false for a frame, the callback does not call \<open>refine\<close>
  and calls nothing else either, and, with \<open>addFrame\<close> as the specification has it, the
  map and with it the number of nodes are the same after the callback as before.
\<close>

theorem rejected_frame_leaves_no_trace:
  assumes "imgMsgToCv E (l_image f) = Inr left" and "imgMsgToCv E (r_image f) = Inr right"
    and "fromROSMsg E (ptcloud_msg f) = Some ptcloud"
    and "addFrame E = addFrame_spec fuse"
    and "fst (addFrame E (cam_params_of E f) left right ptcloud (vslam_system s)) = False"
  shows "\<exists>s'. imageCb E subs f s = Inr ([ROS_INFO_In_callback, Call_addFrame], s')
       \<and> Call_refine \<notin> set (events_of (imageCb E subs f s))
       \<and> length (nodes (vs_sba (vslam_system s'))) = length (nodes (vs_sba (vslam_system s)))
       \<and> vs_sba (vslam_system s') = vs_sba (vslam_system s)
       \<and> pointcloud_pub s' = pointcloud_pub s"
proof -
  obtain vs1 where vs1:
    "addFrame E (cam_params_of E f) left right ptcloud (vslam_system s) = (False, vs1)"
    using assms(5)
    by (cases "addFrame E (cam_params_of E f) left right ptcloud (vslam_system s)") simp
  then have "vs_sba vs1 = vs_sba (vslam_system s)"
    by (auto simp: assms(4) addFrame_spec_def split: prod.splits option.splits)
  then show ?thesis
    by (simp add: imageCb_rejected [OF assms(1-3) vs1] events_of_def)
qed

theorem rejected_frame_leaves_no_trace_witness:
  "fst (addFrame example_env (cam_params_of example_env frame_rejected) () () False
          (vslam_system example_node)) = False
   \<and> imageCb example_env no_subscribers frame_rejected example_node
       = Inr ([ROS_INFO_In_callback, Call_addFrame], example_node)"
  using rejected_frame_leaves_no_trace [where E = example_env and f = frame_rejected
        and left = "()" and right = "()" and ptcloud = False and s = example_node
        and fuse = example_fuse and subs = no_subscribers]
  by (simp add: example_env_def frame_rejected_def example_node_def StereoVslamNode_ctor_def
        empty_system_def addFrame_spec_def example_fuse_def imageCb_def cam_params_of_def Let_def)

subsection \<open>The detector\<close>

lemma configCb_detector:
  assumes "dynamic_cast_AnyDetector (detector s) \<noteq> None"
  shows "\<exists>evs s'. configCb E config s = Inr (evs, s')
           \<and> dynamic_cast_AnyDetector (detector s') \<noteq> None"
  using assms
  by (auto simp: configCb_def Let_def dynamic_cast_AnyDetector_def split: option.splits)

lemma accepted_frame_detector: "detector (snd (accepted_frame E subs vs1 s)) = detector s"
  by (simp add: accepted_frame_eq)

lemma imageCb_detector:
  "imageCb E subs f s = Inr (evs, s') \<Longrightarrow> detector s' = detector s"
  by (auto simp: imageCb_def Let_def split: sum.splits option.splits prod.splits if_splits)
     (metis accepted_frame_detector snd_conv)

lemma imageCb_fault: "imageCb E subs f s \<noteq> Inl NullDereference"
  by (simp add: imageCb_def Let_def split: sum.splits option.splits prod.splits)

lemma dispatch_detector:
  assumes "dynamic_cast_AnyDetector (detector s) \<noteq> None"
  shows "dispatch E a s \<noteq> Inl NullDereference
       \<and> (\<forall>evs s'. dispatch E a s = Inr (evs, s')
            \<longrightarrow> dynamic_cast_AnyDetector (detector s') \<noteq> None)"
proof (cases a)
  case (Reconfigure config)
  with configCb_detector [OF assms, of E config] show ?thesis
    by (auto simp: dispatch_def)
next
  case (Images subs f)
  with assms imageCb_detector [of E subs f s] imageCb_fault [of E subs f s] show ?thesis
    by (auto simp: dispatch_def)
qed

lemma spin_detector:
  assumes "dynamic_cast_AnyDetector (detector s) \<noteq> None"
  shows "spin E arrivals s \<noteq> Inl NullDereference
       \<and> (\<forall>evs s'. spin E arrivals s = Inr (evs, s')
            \<longrightarrow> dynamic_cast_AnyDetector (detector s') \<noteq> None)"
  using assms
proof (induction arrivals arbitrary: s)
  case Nil
  then show ?case by simp
next
  case (Cons a rest)
  show ?case
  proof (cases "dispatch E a s")
    case (Inl flt)
    with dispatch_detector [OF Cons.prems, of E a] show ?thesis
      by auto
  next
    case (Inr r)
    obtain evs s1 where r: "r = (evs, s1)"
      by (cases r)
    with Inr dispatch_detector [OF Cons.prems, of E a]
    have "dynamic_cast_AnyDetector (detector s1) \<noteq> None"
      by simp
    from Cons.IH [OF this] Inr r show ?thesis
      by (auto split: sum.splits)
  qed
qed

text \<open>
  C10. The node is constructed with an \<^verbatim>\<open>AnyDetector\<close> and no callback assigns to the
  member. So after every sequence of arrivals that the node has processed, the detector
  is an \<^verbatim>\<open>AnyDetector\<close>: the downcast of the configuration callback does not yield null,
  and neither the callbacks run so far nor the next configuration callback dereference
  a null pointer.
\<close>

theorem downcast_never_null:
  "spin E arrivals (StereoVslamNode_ctor ad0 vs0) \<noteq> Inl NullDereference
   \<and> (spin E arrivals (StereoVslamNode_ctor ad0 vs0) = Inr (evs, s) \<longrightarrow>
        dynamic_cast_AnyDetector (detector s) \<noteq> None
        \<and> configCb E config s \<noteq> Inl NullDereference)"
proof -
  have init: "dynamic_cast_AnyDetector (detector (StereoVslamNode_ctor ad0 vs0)) \<noteq> None"
    by (simp add: StereoVslamNode_ctor_def dynamic_cast_AnyDetector_def)
  from spin_detector [OF init, of E arrivals] show ?thesis
    using configCb_detector [of s E config] by auto
qed

theorem downcast_never_null_witness:
  "spin example_env [Reconfigure example_config, Images no_subscribers frame_rejected]
       (StereoVslamNode_ctor 0 empty_system)
     = Inr ([ROS_INFO_In_callback, Call_addFrame],
            \<lparr>vslam_system = \<lparr>vs_sba = \<lparr>nodes = [], tracks = []\<rparr>,
                              frame_processor_detector = Some (AnyDetector 7),
                              vs_vo = (1000, True)\<rparr>,
             detector = Some (AnyDetector 7), pointcloud_pub = []\<rparr>)
   \<and> dynamic_cast_AnyDetector (Some (AnyDetector (7 :: nat))) = Some 7
   \<and> configCb example_env example_config
        \<lparr>vslam_system = \<lparr>vs_sba = \<lparr>nodes = [], tracks = []\<rparr>,
                          frame_processor_detector = Some (AnyDetector 7),
                          vs_vo = (1000, True)\<rparr>,
         detector = Some (AnyDetector 7), pointcloud_pub = []\<rparr> \<noteq> Inl NullDereference"
  using downcast_never_null [where E = example_env
      and arrivals = "[Reconfigure example_config, Images no_subscribers frame_rejected]"
      and ?ad0.0 = 0 and ?vs0.0 = empty_system and evs = "[ROS_INFO_In_callback, Call_addFrame]"
      and s = "\<lparr>vslam_system = \<lparr>vs_sba = \<lparr>nodes = [], tracks = []\<rparr>,
                              frame_processor_detector = Some (AnyDetector 7),
                              vs_vo = (1000, True)\<rparr>,
             detector = Some (AnyDetector 7), pointcloud_pub = []\<rparr>"
      and config = example_config]
  by (simp add: dispatch_def configCb_def imageCb_def example_env_def example_config_def
      frame_rejected_def StereoVslamNode_ctor_def empty_system_def no_subscribers_def
      addFrame_spec_def example_fuse_def cam_params_of_def dynamic_cast_AnyDetector_def Let_def)

end
